theory Spec2Isabelle
  imports Main "HOL-Library.Word" "HOL-Library.Sublist"
begin

section \<open>JavaScript values used by the program\<close>

text \<open>
  A JavaScript string is a sequence of UTF-16 code units. ASCII literals of the source are
  written with \<open>ascii\<close>; the Chinese literals are given by their code units.
\<close>

type_synonym js_string = "16 word list"

definition ascii :: "string \<Rightarrow> js_string" where
  "ascii s = map (\<lambda>c. word_of_nat (of_char c)) s"

text \<open>
  \<open>String.prototype.trim\<close> (ECMAScript): strips the WhiteSpace and LineTerminator code
  points from both ends. All of them lie in the Basic Multilingual Plane, so each is one
  code unit.
\<close>

definition isWhiteSpace :: "16 word \<Rightarrow> bool" where
  "isWhiteSpace c = (c \<in> set [0x9, 0xA, 0xB, 0xC, 0xD, 0x20, 0xA0, 0x1680,
     0x2000, 0x2001, 0x2002, 0x2003, 0x2004, 0x2005, 0x2006, 0x2007, 0x2008, 0x2009, 0x200A,
     0x2028, 0x2029, 0x202F, 0x205F, 0x3000, 0xFEFF])"

definition trim :: "js_string \<Rightarrow> js_string" where
  "trim s = rev (dropWhile isWhiteSpace (rev (dropWhile isWhiteSpace s)))"

text \<open>The decimal rendering of a non-negative integer, as a template literal produces it.\<close>

definition digit :: "nat \<Rightarrow> 16 word" where
  "digit d = word_of_nat (48 + d)"

fun decimal :: "nat \<Rightarrow> js_string" where
  "decimal n = (if n < 10 then [digit n] else decimal (n div 10) @ [digit (n mod 10)])"

declare decimal.simps [simp del]

text \<open>
  A thrown value. \<open>JsError m\<close> is an instance of \<open>Error\<close> with \<open>message\<close> m (also the
  \<open>TypeError\<close> of a failed fetch and the \<open>SyntaxError\<close> of a malformed body);
  \<open>JsNonError\<close> is any thrown value for which \<open>instanceof Error\<close> is false.
  A settled promise, and a \<open>try\<close> block, is a value of \<open>js_thrown + 'a\<close>.
\<close>

datatype js_thrown = JsError js_string | JsNonError

text \<open>
  A \<open>Date\<close> holds a time value in milliseconds, or NaN (an invalid date).
  \<open>Date.parse\<close> and \<open>Date.prototype.toISOString\<close> belong to the platform and are
  parameters of the model; \<open>None\<close> is the NaN that \<open>Date.parse\<close> returns for a string it
  cannot read.
\<close>

datatype js_date = TimeValue int | InvalidDate

record js_runtime =
  Date_parse :: "js_string \<Rightarrow> int option"
  Date_toISOString :: "int \<Rightarrow> js_string"

definition new_Date :: "js_runtime \<Rightarrow> js_string \<Rightarrow> js_date" where
  "new_Date rt s = (case Date_parse rt s of None \<Rightarrow> InvalidDate | Some t \<Rightarrow> TimeValue t)"

section \<open>The GraphQL client (src/graphql/client.ts)\<close>

subsection \<open>Interfaces\<close>

record GraphQLError =
  error_message :: js_string
  error_locations :: "(nat \<times> nat) list option"
  error_path :: "js_string list option"

record 'a GraphQLResponse =
  data :: "'a option"
  errors :: "GraphQLError list option"

text \<open>
  The object under \<open>chat\<close> and \<open>sendMessage\<close>. The interface declares \<open>timestamp\<close> a
  string; the controller reads it with \<open>response.timestamp || ...\<close>, so a body without the
  field (\<open>None\<close>) is part of the model. The other fields are present, as declared.
\<close>

record Reply =
  reply_id :: js_string
  reply_message :: js_string
  reply_timestamp :: "js_string option"
  reply_model :: js_string

record ChatResponse =
  chat_field :: Reply

record SendMessageResponse =
  sendMessage_field :: Reply

record MessageInput =
  input_message :: js_string
  input_model :: "js_string option"

subsection \<open>The fetch interface\<close>

text \<open>
  The two GraphQL documents are fixed texts of the source; only which one is sent matters
  here. \<open>variables\<close> is what \<open>request\<close> receives as its second argument.
\<close>

datatype document = ChatQuery | SendMessageMutation

datatype variables = ChatVariables js_string | SendMessageVariables MessageInput

datatype http_method = GET | POST

record request_body =
  body_query :: document
  body_variables :: "variables option"

record fetch_request =
  url :: js_string
  http_method :: http_method
  headers :: "(js_string \<times> js_string) list"
  body :: "request_body option"

text \<open>
  A response carries its status and what \<open>response.json()\<close> settles to: the parsed
  envelope, or the error thrown for a body that is not JSON. In an envelope, \<open>None\<close> is a
  field that is absent or null. \<open>response.ok\<close> is, by the Fetch standard, true exactly for
  a status from 200 to 299.
\<close>

record 'a Response =
  status :: nat
  json :: "js_thrown + 'a GraphQLResponse"

definition ok :: "'a Response \<Rightarrow> bool" where
  "ok response = (200 \<le> status response \<and> status response \<le> 299)"

text \<open>The promise returned by \<open>fetch\<close>, once settled.\<close>

datatype 'a fetch_result = Rejected js_thrown | Resolved "'a Response"

subsection \<open>GraphQLClient\<close>

text \<open>
  \<open>try { ... } catch (error) { h }\<close>: the handler runs on what the block threw.
  The \<open>console.error\<close> calls of the handlers write to the console only and are left out.
\<close>

definition try_catch :: "js_thrown + 'a \<Rightarrow> (js_thrown \<Rightarrow> js_thrown + 'a) \<Rightarrow> js_thrown + 'a" where
  "try_catch block handler = (case block of Inl error \<Rightarrow> handler error | Inr v \<Rightarrow> Inr v)"

text \<open>The arguments of the \<open>fetch\<close> call in \<open>request\<close>.\<close>

definition request_fetch :: "js_string \<Rightarrow> document \<Rightarrow> variables option \<Rightarrow> fetch_request" where
  "request_fetch baseUrl query vars =
     \<lparr>url = baseUrl @ ascii ''/graphql'',
      http_method = POST,
      headers = [(ascii ''Content-Type'', ascii ''application/json'')],
      body = Some \<lparr>body_query = query, body_variables = vars\<rparr>\<rparr>"

text \<open>The body of \<open>request\<close> from the point where the \<open>fetch\<close> promise has settled.\<close>

definition request_settled :: "'a fetch_result \<Rightarrow> js_thrown + 'a" where
  "request_settled fetched =
     try_catch
       (case fetched of
          Rejected error \<Rightarrow> Inl error
        | Resolved response \<Rightarrow>
            if \<not> ok response
            then Inl (JsError (ascii ''HTTP error! status: '' @ decimal (status response)))
            else (case json response of
                    Inl error \<Rightarrow> Inl error
                  | Inr result \<Rightarrow>
                      (case errors result of
                         Some (e # es) \<Rightarrow> Inl (JsError (error_message e))
                       | _ \<Rightarrow>
                          (case data result of
                             None \<Rightarrow> Inl (JsError (ascii ''No data received from server''))
                           | Some d \<Rightarrow> Inr d))))
       (\<lambda>error. Inl error)"

definition request ::
  "(fetch_request \<Rightarrow> 'a fetch_result) \<Rightarrow> js_string \<Rightarrow> document \<Rightarrow> variables option
     \<Rightarrow> js_thrown + 'a" where
  "request fetch baseUrl query vars = request_settled (fetch (request_fetch baseUrl query vars))"

definition chat ::
  "(fetch_request \<Rightarrow> ChatResponse fetch_result) \<Rightarrow> js_string \<Rightarrow> js_string
     \<Rightarrow> js_thrown + Reply" where
  "chat fetch baseUrl message =
     (case request fetch baseUrl ChatQuery (Some (ChatVariables message)) of
        Inl error \<Rightarrow> Inl error
      | Inr result \<Rightarrow> Inr (chat_field result))"

definition sendMessage ::
  "(fetch_request \<Rightarrow> SendMessageResponse fetch_result) \<Rightarrow> js_string \<Rightarrow> MessageInput
     \<Rightarrow> js_thrown + Reply" where
  "sendMessage fetch baseUrl input =
     (case request fetch baseUrl SendMessageMutation (Some (SendMessageVariables input)) of
        Inl error \<Rightarrow> Inl error
      | Inr result \<Rightarrow> Inr (sendMessage_field result))"

text \<open>The arguments of the \<open>fetch\<close> call in \<open>healthCheck\<close>: a plain GET.\<close>

definition healthCheck_fetch :: "js_string \<Rightarrow> fetch_request" where
  "healthCheck_fetch baseUrl =
     \<lparr>url = baseUrl @ ascii ''/health'', http_method = GET, headers = [], body = None\<rparr>"

definition healthCheck ::
  "(fetch_request \<Rightarrow> 'a fetch_result) \<Rightarrow> js_string \<Rightarrow> js_thrown + bool" where
  "healthCheck fetch baseUrl =
     try_catch
       (case fetch (healthCheck_fetch baseUrl) of
          Rejected error \<Rightarrow> Inl error
        | Resolved response \<Rightarrow> Inr (ok response))
       (\<lambda>error. Inr False)"

section \<open>The conversation controller (the App component)\<close>

subsection \<open>State\<close>

datatype Sender = SenderUser | SenderAi

record Message =
  id_msg :: nat
  text_msg :: js_string
  sender_msg :: Sender
  timestamp_msg :: js_date

text \<open>The three \<open>useState\<close> cells of the component, as one render sees them.\<close>

record App_state =
  messages :: "Message list"
  inputText :: js_string
  isLoading :: bool

definition greeting :: js_string where
  "greeting = [0x4f60, 0x597d, 0xff01, 0x6211, 0x662f, 0x41, 0x49, 0x52a9, 0x624b, 0xff0c,
     0x6709, 0x4ec0, 0x4e48, 0x53ef, 0x4ee5, 0x5e2e, 0x52a9, 0x4f60, 0x7684, 0x5417, 0xff1f]"

definition initial_state :: "int \<Rightarrow> App_state" where
  "initial_state now =
     \<lparr>messages = [\<lparr>id_msg = 1, text_msg = greeting, sender_msg = SenderAi,
                    timestamp_msg = TimeValue now\<rparr>],
      inputText = [],
      isLoading = False\<rparr>"

subsection \<open>handleSendMessage\<close>

text \<open>
  \<open>handleSendMessage\<close> is an async function. It runs without interruption up to the
  \<open>await\<close> of \<open>graphqlClient.sendMessage\<close> and continues when that promise has settled.
  What it keeps across the \<open>await\<close> is its closure: \<open>messages\<close>, the log of the render
  that created the handler, and the argument it passed to \<open>sendMessage\<close>.
\<close>

record pending_call =
  captured_messages :: "Message list"
  call_input :: MessageInput

text \<open>
  The part before the \<open>await\<close>. The result is the state after the three setters and the
  call that was issued, \<open>None\<close> when the handler returned at its guard.
\<close>

definition handleSendMessage_begin :: "int \<Rightarrow> App_state \<Rightarrow> App_state \<times> pending_call option" where
  "handleSendMessage_begin now s =
     (if trim (inputText s) = [] then (s, None)
      else
        let userMessage = \<lparr>id_msg = length (messages s) + 1, text_msg = inputText s,
                           sender_msg = SenderUser, timestamp_msg = TimeValue now\<rparr>;
            currentInput = inputText s
        in (s\<lparr>messages := messages s @ [userMessage], inputText := [], isLoading := True\<rparr>,
            Some \<lparr>captured_messages = messages s,
                  call_input = \<lparr>input_message = currentInput,
                                input_model = Some (ascii ''gpt-3.5-turbo'')\<rparr>\<rparr>))"

definition error_prefix :: js_string where
  "error_prefix = [0x62b1, 0x6b49, 0xff0c, 0x53d1, 0x9001, 0x6d88, 0x606f, 0x65f6, 0x51fa,
     0x73b0, 0x9519, 0x8bef, 0xff1a]"

definition unknown_error :: js_string where
  "unknown_error = [0x672a, 0x77e5, 0x9519, 0x8bef]"

definition error_suffix :: js_string where
  "error_suffix = [0x3002, 0x8bf7, 0x786e, 0x4fdd, 0x41, 0x49, 0x804a, 0x5929, 0x670d,
     0x52a1, 0x6b63, 0x5728, 0x8fd0, 0x884c, 0x3002]"

text \<open>\<open>error instanceof Error ? error.message : unknown_error\<close>\<close>

definition error_description :: "js_thrown \<Rightarrow> js_string" where
  "error_description error = (case error of JsError m \<Rightarrow> m | JsNonError \<Rightarrow> unknown_error)"

text \<open>
  The part after the \<open>await\<close>: \<open>settled\<close> is what the \<open>sendMessage\<close> promise settled
  to, \<open>s\<close> the state at that moment (the \<open>prevMessages\<close> of the functional update is its
  log), \<open>now\<close> the clock at that moment. The ids are computed from the captured log.
\<close>

definition handleSendMessage_resume ::
  "js_runtime \<Rightarrow> int \<Rightarrow> pending_call \<Rightarrow> js_thrown + Reply \<Rightarrow> App_state \<Rightarrow> App_state" where
  "handleSendMessage_resume rt now call settled s =
     (case settled of
        Inr response \<Rightarrow>
          let aiMessage =
                \<lparr>id_msg = length (captured_messages call) + 2,
                 text_msg = reply_message response,
                 sender_msg = SenderAi,
                 timestamp_msg =
                   new_Date rt (case reply_timestamp response of
                                  None \<Rightarrow> Date_toISOString rt now
                                | Some t \<Rightarrow> if t = [] then Date_toISOString rt now else t)\<rparr>
          in s\<lparr>messages := messages s @ [aiMessage], isLoading := False\<rparr>
      | Inl error \<Rightarrow>
          let errorMessage =
                \<lparr>id_msg = length (captured_messages call) + 2,
                 text_msg = error_prefix @ error_description error @ error_suffix,
                 sender_msg = SenderAi,
                 timestamp_msg = TimeValue now\<rparr>
          in s\<lparr>messages := messages s @ [errorMessage], isLoading := False\<rparr>)"

text \<open>
  One whole run of the handler against a backend \<open>fetch\<close>, with nothing else happening
  between the two parts: \<open>now\<^sub>1\<close> is the clock at the call, \<open>now\<^sub>2\<close> at the settlement.
\<close>

definition handleSendMessage ::
  "js_runtime \<Rightarrow> (fetch_request \<Rightarrow> SendMessageResponse fetch_result) \<Rightarrow> js_string
     \<Rightarrow> int \<Rightarrow> int \<Rightarrow> App_state \<Rightarrow> App_state" where
  "handleSendMessage rt fetch baseUrl now1 now2 s =
     (case handleSendMessage_begin now1 s of
        (s', None) \<Rightarrow> s'
      | (s', Some call) \<Rightarrow>
          handleSendMessage_resume rt now2 call (sendMessage fetch baseUrl (call_input call)) s')"

subsection \<open>handleKeyPress\<close>

record KeyboardEvent =
  key :: js_string
  shiftKey :: bool
  ctrlKey :: bool
  altKey :: bool
  metaKey :: bool

text \<open>
  The first component of the result tells whether \<open>e.preventDefault()\<close> was called; the
  rest is what the call of \<open>handleSendMessage\<close> did before its \<open>await\<close>.
\<close>

definition handleKeyPress ::
  "int \<Rightarrow> KeyboardEvent \<Rightarrow> App_state \<Rightarrow> bool \<times> App_state \<times> pending_call option" where
  "handleKeyPress now e s =
     (if key e = ascii ''Enter'' \<and> \<not> shiftKey e
      then (True, handleSendMessage_begin now s)
      else (False, s, None))"

subsection \<open>The rendered controls and the calls of one render\<close>

text \<open>
  The \<open>input\<close> element is rendered with \<open>disabled={isLoading}\<close>; the button, whose
  \<open>onClick\<close> is \<open>handleSendMessage\<close>, is rendered with
  \<open>disabled={isLoading || inputText.trim() === ''}\<close>.
\<close>

definition input_disabled :: "App_state \<Rightarrow> bool" where
  "input_disabled s = isLoading s"

definition button_disabled :: "App_state \<Rightarrow> bool" where
  "button_disabled s = (isLoading s \<or> trim (inputText s) = [])"

text \<open>
  The handler is a closure of the render that created it: \<open>messages\<close> and \<open>inputText\<close> in
  its body are the constants of that render, while the setters write the state cells. Until
  the component has rendered again, every event runs the same closure, whatever the cells
  hold by then. \<open>handleSendMessage_call now render cells\<close> is the part before the
  \<open>await\<close> of a call of the handler of \<open>render\<close> at a moment when the cells hold
  \<open>cells\<close>; the result is the cells after the setters and the call that was issued.
  \<open>handleSendMessage_begin\<close> is the case in which the cells are still what was rendered.
\<close>

definition handleSendMessage_call ::
  "int \<Rightarrow> App_state \<Rightarrow> App_state \<Rightarrow> App_state \<times> pending_call option" where
  "handleSendMessage_call now render cells =
     (if trim (inputText render) = [] then (cells, None)
      else
        let userMessage = \<lparr>id_msg = length (messages render) + 1, text_msg = inputText render,
                           sender_msg = SenderUser, timestamp_msg = TimeValue now\<rparr>;
            currentInput = inputText render
        in (cells\<lparr>messages := messages render @ [userMessage], inputText := [],
                  isLoading := True\<rparr>,
            Some \<lparr>captured_messages = messages render,
                  call_input = \<lparr>input_message = currentInput,
                                input_model = Some (ascii ''gpt-3.5-turbo'')\<rparr>\<rparr>))"

section \<open>Sample inputs\<close>

text \<open>
  A fragment of the platform's date functions: one instant, 2024-01-01T00:00:00Z, with the
  two spellings \<open>Date.parse\<close> reads it from and the one \<open>toISOString\<close> writes.
\<close>

definition stub_runtime :: js_runtime where
  "stub_runtime =
     \<lparr>Date_parse = (\<lambda>s. if s = ascii ''2024-01-01T00:00:00.000Z'' \<or> s = ascii ''2024-01-01T00:00:00Z''
                           then Some 1704067200000 else None),
      Date_toISOString = (\<lambda>t. if t = 1704067200000 then ascii ''2024-01-01T00:00:00.000Z'' else [])\<rparr>"

text \<open>The page after the user has typed "hi".\<close>

definition typed_hi :: App_state where
  "typed_hi = (initial_state 0)\<lparr>inputText := ascii ''hi''\<rparr>"

text \<open>The page after "hi" was submitted at time 1, and the call then in flight.\<close>

definition awaiting_hi :: App_state where
  "awaiting_hi =
     \<lparr>messages = messages (initial_state 0) @
        [\<lparr>id_msg = 2, text_msg = ascii ''hi'', sender_msg = SenderUser,
          timestamp_msg = TimeValue 1\<rparr>],
      inputText = [],
      isLoading = True\<rparr>"

text \<open>The cells after the handler of that same render has run once more, at time 2.\<close>

definition resubmitted_hi :: App_state where
  "resubmitted_hi =
     \<lparr>messages = messages (initial_state 0) @
        [\<lparr>id_msg = 2, text_msg = ascii ''hi'', sender_msg = SenderUser,
          timestamp_msg = TimeValue 2\<rparr>],
      inputText = [],
      isLoading = True\<rparr>"

definition hi_call :: pending_call where
  "hi_call =
     \<lparr>captured_messages = messages (initial_state 0),
      call_input = \<lparr>input_message = ascii ''hi'',
                    input_model = Some (ascii ''gpt-3.5-turbo'')\<rparr>\<rparr>"

definition plain_enter :: KeyboardEvent where
  "plain_enter =
     \<lparr>key = ascii ''Enter'', shiftKey = False, ctrlKey = False, altKey = False, metaKey = False\<rparr>"

definition shift_enter :: KeyboardEvent where
  "shift_enter = plain_enter\<lparr>shiftKey := True\<rparr>"

definition ctrl_enter :: KeyboardEvent where
  "ctrl_enter = plain_enter\<lparr>ctrlKey := True\<rparr>"

text \<open>Stub backends: every request gets the same response.\<close>

definition serving :: "'a Response \<Rightarrow> fetch_request \<Rightarrow> 'a fetch_result" where
  "serving response req = Resolved response"

definition unreachable_host :: "fetch_request \<Rightarrow> 'a fetch_result" where
  "unreachable_host req = Rejected (JsError (ascii ''Failed to fetch''))"

definition boom_error :: GraphQLError where
  "boom_error = \<lparr>error_message = ascii ''boom'', error_locations = None, error_path = None\<rparr>"

definition second_error :: GraphQLError where
  "second_error = \<lparr>error_message = ascii ''later'', error_locations = None, error_path = None\<rparr>"

definition hi_reply :: Reply where
  "hi_reply =
     \<lparr>reply_id = ascii ''1'', reply_message = ascii ''hi'',
      reply_timestamp = Some (ascii ''2024-01-01T00:00:00Z''), reply_model = ascii ''m''\<rparr>"

definition undated_reply :: Reply where
  "undated_reply = hi_reply\<lparr>reply_timestamp := None\<rparr>"

definition misdated_reply :: Reply where
  "misdated_reply = hi_reply\<lparr>reply_timestamp := Some (ascii ''not a date'')\<rparr>"

definition response_500 :: "SendMessageResponse Response" where
  "response_500 =
     \<lparr>status = 500, json = Inr \<lparr>data = Some \<lparr>sendMessage_field = hi_reply\<rparr>, errors = None\<rparr>\<rparr>"

definition response_boom :: "SendMessageResponse Response" where
  "response_boom =
     \<lparr>status = 200, json = Inr \<lparr>data = None, errors = Some [boom_error]\<rparr>\<rparr>"

definition response_empty :: "SendMessageResponse Response" where
  "response_empty = \<lparr>status = 200, json = Inr \<lparr>data = None, errors = Some []\<rparr>\<rparr>"

definition response_hi :: "SendMessageResponse Response" where
  "response_hi =
     \<lparr>status = 200, json = Inr \<lparr>data = Some \<lparr>sendMessage_field = hi_reply\<rparr>, errors = None\<rparr>\<rparr>"

definition response_both :: "SendMessageResponse Response" where
  "response_both =
     \<lparr>status = 200,
      json = Inr \<lparr>data = Some \<lparr>sendMessage_field = hi_reply\<rparr>,
                  errors = Some [boom_error, second_error]\<rparr>\<rparr>"

section \<open>Basic facts\<close>

lemma trim_Nil: "trim [] = []"
  by (simp add: trim_def)

lemma trim_hi: "trim (ascii ''hi'') \<noteq> []"
  by (simp add: trim_def ascii_def isWhiteSpace_def)

lemma begin_accepts:
  "trim (inputText s) \<noteq> [] \<Longrightarrow>
   handleSendMessage_begin now s =
     (s\<lparr>messages := messages s @
           [\<lparr>id_msg = length (messages s) + 1, text_msg = inputText s,
             sender_msg = SenderUser, timestamp_msg = TimeValue now\<rparr>],
        inputText := [], isLoading := True\<rparr>,
      Some \<lparr>captured_messages = messages s,
            call_input = \<lparr>input_message = inputText s,
                          input_model = Some (ascii ''gpt-3.5-turbo'')\<rparr>\<rparr>)"
  by (simp add: handleSendMessage_begin_def Let_def)

lemma begin_rejects: "trim (inputText s) = [] \<Longrightarrow> handleSendMessage_begin now s = (s, None)"
  by (simp add: handleSendMessage_begin_def)

lemma begin_typed_hi: "handleSendMessage_begin 1 typed_hi = (awaiting_hi, Some hi_call)"
  by (simp add: begin_accepts typed_hi_def trim_hi awaiting_hi_def hi_call_def initial_state_def)


lemma resume_Inr:
  "handleSendMessage_resume rt now call (Inr response) s =
     s\<lparr>messages := messages s @
          [\<lparr>id_msg = length (captured_messages call) + 2,
            text_msg = reply_message response,
            sender_msg = SenderAi,
            timestamp_msg =
              new_Date rt (case reply_timestamp response of
                             None \<Rightarrow> Date_toISOString rt now
                           | Some t \<Rightarrow> if t = [] then Date_toISOString rt now else t)\<rparr>],
       isLoading := False\<rparr>"
  by (simp add: handleSendMessage_resume_def)




lemma stub_roundtrip:
  "Date_parse stub_runtime (Date_toISOString stub_runtime 1704067200000) = Some 1704067200000"
  by (simp add: stub_runtime_def)

lemma stub_unparseable: "Date_parse stub_runtime (ascii ''not a date'') = None"
  by (simp add: stub_runtime_def ascii_def)

section \<open>Submission while a call is pending\<close>

lemma call_on_own_render: "handleSendMessage_call now s s = handleSendMessage_begin now s"
  by (simp add: handleSendMessage_call_def handleSendMessage_begin_def)

text \<open>
  Whether a call of the handler issues a transport call is decided by its render alone: the
  flag in the cells is never read.
\<close>

lemma call_ignores_cells:
  "snd (handleSendMessage_call now render cells) = snd (handleSendMessage_begin now render)"
  by (simp add: handleSendMessage_call_def handleSendMessage_begin_def Let_def)

text \<open>
  C1 says that a submit call is a no-op whenever the pending flag is true: log unchanged,
  no transport call. The code does not do that. \<open>handleSendMessage\<close> tests the trimmed
  input of its render and never the flag; only the button's \<open>disabled\<close> attribute tests
  \<open>isLoading\<close>, and it takes effect at the next render. On the render with "hi" typed the
  button is enabled. The first call of that render's handler sets the flag and issues a
  transport call; a second call of the same handler, made while the flag is set and before
  the component has rendered again, issues a second transport call with the same input and
  writes the user message again. When both calls have settled, the log holds two assistant
  messages with the same id 3.
\<close>

theorem second_submit_while_pending:
  "\<not> button_disabled typed_hi \<and>
   handleSendMessage_call 1 typed_hi typed_hi = (awaiting_hi, Some hi_call) \<and>
   isLoading awaiting_hi \<and>
   handleSendMessage_call 2 typed_hi awaiting_hi = (resubmitted_hi, Some hi_call) \<and>
   map id_msg (messages
      (handleSendMessage_resume stub_runtime 4 hi_call (Inr hi_reply)
         (handleSendMessage_resume stub_runtime 3 hi_call (Inr hi_reply) resubmitted_hi)))
     = [1, 2, 3, 3]"
proof -
  have b: "\<not> button_disabled typed_hi"
    by (simp add: button_disabled_def typed_hi_def trim_hi initial_state_def)
  have c1: "handleSendMessage_call 1 typed_hi typed_hi = (awaiting_hi, Some hi_call)"
    by (simp add: call_on_own_render begin_typed_hi)
  have l: "isLoading awaiting_hi"
    by (simp add: awaiting_hi_def)
  have c2: "handleSendMessage_call 2 typed_hi awaiting_hi = (resubmitted_hi, Some hi_call)"
    by (simp add: handleSendMessage_call_def Let_def typed_hi_def trim_hi awaiting_hi_def
        resubmitted_hi_def hi_call_def initial_state_def)
  have r: "map id_msg (messages
      (handleSendMessage_resume stub_runtime 4 hi_call (Inr hi_reply)
         (handleSendMessage_resume stub_runtime 3 hi_call (Inr hi_reply) resubmitted_hi)))
     = [1, 2, 3, 3]"
    by (simp add: resume_Inr resubmitted_hi_def hi_call_def initial_state_def)
  show ?thesis
    using b c1 l c2 r by simp
qed

section \<open>The request funnel\<close>

text \<open>
  C2: once \<open>fetch\<close> has produced a response, \<open>request\<close> goes through four cases in this
  order. A status outside 200..299 raises the HTTP error, whatever the body is (the result
  does not depend on \<open>json response\<close>). Otherwise, with the body parsed, a non-empty error
  list raises an error whose message is the message of its first entry. Otherwise a missing
  data field raises the "No data received from server" error. Otherwise the data payload is
  returned.
\<close>

theorem request_funnel:
  assumes "fetch (request_fetch baseUrl query vars) = Resolved response"
  shows "(\<not> ok response \<longrightarrow>
            request fetch baseUrl query vars
              = Inl (JsError (ascii ''HTTP error! status: '' @ decimal (status response)))) \<and>
         (ok response \<longrightarrow> json response = Inr result \<longrightarrow> errors result = Some (e # es) \<longrightarrow>
            request fetch baseUrl query vars = Inl (JsError (error_message e))) \<and>
         (ok response \<longrightarrow> json response = Inr result \<longrightarrow>
            (errors result = None \<or> errors result = Some []) \<longrightarrow> data result = None \<longrightarrow>
            request fetch baseUrl query vars
              = Inl (JsError (ascii ''No data received from server''))) \<and>
         (ok response \<longrightarrow> json response = Inr result \<longrightarrow>
            (errors result = None \<or> errors result = Some []) \<longrightarrow> data result = Some d \<longrightarrow>
            request fetch baseUrl query vars = Inr d)"
  using assms by (auto simp: request_def request_settled_def try_catch_def)

theorem request_funnel_witness:
  "request (serving response_500) [] SendMessageMutation None
     = Inl (JsError (ascii ''HTTP error! status: 500'')) \<and>
   request (serving response_boom) [] SendMessageMutation None = Inl (JsError (ascii ''boom'')) \<and>
   request (serving response_empty) [] SendMessageMutation None
     = Inl (JsError (ascii ''No data received from server'')) \<and>
   request (serving response_hi) [] SendMessageMutation None
     = Inr \<lparr>sendMessage_field = hi_reply\<rparr>"
proof -
  have d: "decimal 500 = ascii ''500''"
    by (simp add: decimal.simps digit_def ascii_def)
  have a: "request (serving response_500) [] SendMessageMutation None
     = Inl (JsError (ascii ''HTTP error! status: 500''))"
    using request_funnel [of "serving response_500" "[]" SendMessageMutation None response_500]
    by (simp add: serving_def response_500_def ok_def d ascii_def)
  have b: "request (serving response_boom) [] SendMessageMutation None
     = Inl (JsError (ascii ''boom''))"
    using request_funnel [of "serving response_boom" "[]" SendMessageMutation None response_boom
        "\<lparr>data = None, errors = Some [boom_error]\<rparr>" boom_error "[]"]
    by (simp add: serving_def response_boom_def ok_def boom_error_def)
  have c: "request (serving response_empty) [] SendMessageMutation None
     = Inl (JsError (ascii ''No data received from server''))"
    using request_funnel [of "serving response_empty" "[]" SendMessageMutation None response_empty
        "\<lparr>data = None, errors = Some []\<rparr>"]
    by (simp add: serving_def response_empty_def ok_def)
  have e: "request (serving response_hi) [] SendMessageMutation None
     = Inr \<lparr>sendMessage_field = hi_reply\<rparr>"
    using request_funnel [of "serving response_hi" "[]" SendMessageMutation None response_hi
        "\<lparr>data = Some \<lparr>sendMessage_field = hi_reply\<rparr>, errors = None\<rparr>" _ _
        "\<lparr>sendMessage_field = hi_reply\<rparr>"]
    by (simp add: serving_def response_hi_def ok_def)
  show ?thesis using a b c e by simp
qed

text \<open>
  C9: when a successful response carries both a non-empty error list and a data payload,
  \<open>request\<close> raises with the first error's message; the payload is not returned.
\<close>

theorem errors_before_data:
  assumes "fetch (request_fetch baseUrl query vars) = Resolved response"
    and "ok response" and "json response = Inr result"
    and "errors result = Some (e # es)" and "data result = Some d"
  shows "request fetch baseUrl query vars = Inl (JsError (error_message e)) \<and>
         request fetch baseUrl query vars \<noteq> Inr d"
  using assms by (simp add: request_def request_settled_def try_catch_def)

theorem errors_before_data_witness:
  "ok response_both \<and>
   json response_both = Inr \<lparr>data = Some \<lparr>sendMessage_field = hi_reply\<rparr>,
                              errors = Some [boom_error, second_error]\<rparr> \<and>
   request (serving response_both) [] SendMessageMutation None = Inl (JsError (ascii ''boom''))"
proof -
  have f: "serving response_both (request_fetch [] SendMessageMutation None)
      = Resolved response_both"
    by (simp add: serving_def)
  have o: "ok response_both"
    by (simp add: response_both_def ok_def)
  have j: "json response_both = Inr \<lparr>data = Some \<lparr>sendMessage_field = hi_reply\<rparr>,
                              errors = Some [boom_error, second_error]\<rparr>"
    by (simp add: response_both_def)
  show ?thesis
    using errors_before_data [of "serving response_both" "[]" SendMessageMutation None
        response_both "\<lparr>data = Some \<lparr>sendMessage_field = hi_reply\<rparr>,
                         errors = Some [boom_error, second_error]\<rparr>"
        boom_error "[second_error]" "\<lparr>sendMessage_field = hi_reply\<rparr>"] f o j
    by (simp add: boom_error_def)
qed

section \<open>The health check\<close>

text \<open>
  C3: \<open>healthCheck\<close> never raises: its result is always a boolean. The boolean is true
  exactly when \<open>fetch\<close> produced a response with a status from 200 to 299, and false when
  \<open>fetch\<close> was rejected or the status is outside that range.
\<close>

theorem healthCheck_total:
  "(\<exists>b. healthCheck fetch baseUrl = Inr b) \<and>
   (healthCheck fetch baseUrl = Inr True \<longleftrightarrow>
      (\<exists>response. fetch (healthCheck_fetch baseUrl) = Resolved response \<and>
         200 \<le> status response \<and> status response \<le> 299)) \<and>
   (healthCheck fetch baseUrl = Inr False \<longleftrightarrow>
      (\<exists>error. fetch (healthCheck_fetch baseUrl) = Rejected error) \<or>
      (\<exists>response. fetch (healthCheck_fetch baseUrl) = Resolved response \<and>
         \<not> (200 \<le> status response \<and> status response \<le> 299)))"
  by (cases "fetch (healthCheck_fetch baseUrl)") (auto simp: healthCheck_def try_catch_def ok_def)

theorem healthCheck_total_witness:
  "healthCheck (serving response_hi) [] = Inr True \<and>
   healthCheck (serving response_500) [] = Inr False \<and>
   healthCheck (unreachable_host :: fetch_request \<Rightarrow> SendMessageResponse fetch_result) []
     = Inr False"
  using healthCheck_total [of "serving response_hi" "[]"]
    healthCheck_total [of "serving response_500" "[]"]
    healthCheck_total
      [of "unreachable_host :: fetch_request \<Rightarrow> SendMessageResponse fetch_result" "[]"]
  by (simp add: serving_def unreachable_host_def response_hi_def response_500_def)

section \<open>A submission and its resolution\<close>





text \<open>
  C10: the call issued by a submission carries the input text and the model string
  "gpt-3.5-turbo"; the model is never omitted. The run of the handler reads the backend
  only at the one \<open>fetch\<close> request whose body holds the mutation with exactly this input.
\<close>

theorem submit_sends_fixed_model:
  assumes "handleSendMessage_begin now1 s = (s1, Some call)"
  shows "call_input call = \<lparr>input_message = inputText s,
                             input_model = Some (ascii ''gpt-3.5-turbo'')\<rparr> \<and>
         input_model (call_input call) \<noteq> None \<and>
         handleSendMessage rt fetch baseUrl now1 now2 s
           = handleSendMessage_resume rt now2 call
              (case request_settled (fetch
                      \<lparr>url = baseUrl @ ascii ''/graphql'',
                       http_method = POST,
                       headers = [(ascii ''Content-Type'', ascii ''application/json'')],
                       body = Some \<lparr>body_query = SendMessageMutation,
                                    body_variables = Some (SendMessageVariables
                                      \<lparr>input_message = inputText s,
                                       input_model = Some (ascii ''gpt-3.5-turbo'')\<rparr>)\<rparr>\<rparr>) of
                 Inl error \<Rightarrow> Inl error
               | Inr result \<Rightarrow> Inr (sendMessage_field result)) s1"
proof -
  have c: "call_input call = \<lparr>input_message = inputText s,
                             input_model = Some (ascii ''gpt-3.5-turbo'')\<rparr>"
    using assms by (auto simp: handleSendMessage_begin_def Let_def split: if_splits)
  have "handleSendMessage rt fetch baseUrl now1 now2 s
      = handleSendMessage_resume rt now2 call (sendMessage fetch baseUrl (call_input call)) s1"
    using assms by (simp add: handleSendMessage_def)
  then show ?thesis
    using c by (simp add: sendMessage_def request_def request_fetch_def)
qed

theorem submit_sends_fixed_model_witness:
  "handleSendMessage_begin 1 typed_hi = (awaiting_hi, Some hi_call) \<and>
   input_model (call_input hi_call) = Some (ascii ''gpt-3.5-turbo'')"
  using submit_sends_fixed_model [OF begin_typed_hi] begin_typed_hi
  by simp

section \<open>What the appended assistant message holds\<close>



text \<open>
  C6, as stated, fails for a timestamp that cannot be parsed: the fallback to the current
  time is \<open>response.timestamp || ...\<close>, which looks at the string, not at the parsed date.
  For the reply timestamp "not a date" the appended message holds an invalid date.
\<close>

theorem unparseable_timestamp_counterexample:
  "reply_timestamp misdated_reply = Some (ascii ''not a date'') \<and>
   Date_parse stub_runtime (ascii ''not a date'') = None \<and>
   timestamp_msg (last (messages
      (handleSendMessage_resume stub_runtime 1704067200000 hi_call (Inr misdated_reply)
         awaiting_hi)))
     = InvalidDate"
  by (simp add: resume_Inr misdated_reply_def hi_reply_def new_Date_def stub_unparseable)
     (simp add: ascii_def)

text \<open>
  C6, amended: on a reply, the continuation appends one assistant message whose text is the
  reply's message field. Its timestamp is the current time when the reply's timestamp field
  is absent or the empty string; otherwise it is the date parsed from the field, which is
  an invalid date when the field cannot be parsed. The hypothesis is the platform's
  guarantee that \<open>toISOString\<close> of the current time parses back to it.
\<close>

theorem success_message_from_response:
  assumes "Date_parse rt (Date_toISOString rt now) = Some now"
  shows "\<exists>a. handleSendMessage_resume rt now call (Inr response) s
               = s\<lparr>messages := messages s @ [a], isLoading := False\<rparr> \<and>
             sender_msg a = SenderAi \<and>
             text_msg a = reply_message response \<and>
             timestamp_msg a =
               (case reply_timestamp response of
                  None \<Rightarrow> TimeValue now
                | Some t \<Rightarrow>
                    if t = [] then TimeValue now
                    else (case Date_parse rt t of
                            None \<Rightarrow> InvalidDate
                          | Some v \<Rightarrow> TimeValue v))"
  unfolding resume_Inr
  by (intro exI conjI, rule refl) (simp_all add: new_Date_def assms split: option.splits)

theorem success_message_from_response_witness:
  "Date_parse stub_runtime (Date_toISOString stub_runtime 1704067200000) = Some 1704067200000 \<and>
   (\<exists>a. handleSendMessage_resume stub_runtime 1704067200000 hi_call (Inr undated_reply) awaiting_hi
           = awaiting_hi\<lparr>messages := messages awaiting_hi @ [a], isLoading := False\<rparr> \<and>
         text_msg a = ascii ''hi'' \<and> timestamp_msg a = TimeValue 1704067200000)"
  using success_message_from_response [OF stub_roundtrip, of hi_call undated_reply awaiting_hi]
    stub_roundtrip
  by (auto simp: undated_reply_def hi_reply_def)

section \<open>The Enter key\<close>

text \<open>
  C7, as stated, fails for the modifiers other than Shift: the handler reads \<open>shiftKey\<close>
  only. Enter with Ctrl held, on the input "hi", submits.
\<close>

theorem ctrl_enter_submits_counterexample:
  "key ctrl_enter = ascii ''Enter'' \<and> ctrlKey ctrl_enter \<and>
   handleKeyPress 1 ctrl_enter typed_hi = (True, awaiting_hi, Some hi_call)"
  by (simp add: handleKeyPress_def ctrl_enter_def plain_enter_def begin_typed_hi)

text \<open>
  C7, amended: an Enter key press with Shift not held does exactly what the submit action
  does (whatever the state of Ctrl, Alt and Meta), and an Enter key press with Shift held
  does nothing.
\<close>

theorem enter_without_shift_submits:
  assumes "key e = ascii ''Enter''"
  shows "handleKeyPress now e s =
           (if shiftKey e then (False, s, None) else (True, handleSendMessage_begin now s))"
  using assms by (simp add: handleKeyPress_def)

theorem enter_without_shift_submits_witness:
  "key plain_enter = ascii ''Enter'' \<and> key shift_enter = ascii ''Enter'' \<and>
   handleKeyPress 1 plain_enter typed_hi = (True, awaiting_hi, Some hi_call) \<and>
   handleKeyPress 1 shift_enter typed_hi = (False, typed_hi, None)"
proof -
  have p: "key plain_enter = ascii ''Enter''"
    by (simp add: plain_enter_def)
  have q: "key shift_enter = ascii ''Enter''"
    by (simp add: shift_enter_def plain_enter_def)
  show ?thesis
    using enter_without_shift_submits [OF p, of 1 typed_hi]
      enter_without_shift_submits [OF q, of 1 typed_hi] p q
    by (simp add: begin_typed_hi plain_enter_def shift_enter_def)
qed

end
